theory Spec2Isabelle
  imports Complex_Main "HOL-Library.AList"
begin

section \<open>Values, exceptions and strings\<close>

text \<open>
  The plan documents and the AST index are JSON. A JSON value is modelled as the Python
  object \<open>json.load\<close> gives: \<open>None\<close>, a bool, a number (integers only here), a string,
  a list or a dict (an association list whose keys are distinct, in insertion order).
  Strings are lists of ASCII characters.
\<close>

datatype json =
    JNull
  | JBool bool
  | JInt int
  | JStr string
  | JList "json list"
  | JObj "(string \<times> json) list"

text \<open>
  \<open>dsl.py\<close> has one exception class, \<open>DSLValidationError\<close>, raised with a message.
  Each constructor of \<open>dsl_error\<close> is one raise site of the module, carrying the values
  the message is formatted from:
  \<^item> \<open>UnknownOperation\<close>: "Unknown op '{op}'" (\<open>parse_step\<close>);
  \<^item> \<open>MalformedPlan\<close>: "Test plan must contain 'test' and 'steps'" (\<open>parse_test_plan\<close>);
  \<^item> \<open>UnknownArgument\<close>: "Unknown argument '{arg}'" (\<open>infer_arg_type\<close>);
  \<^item> \<open>ArityMismatch\<close>: "{where}: expected {n} args, got {m}" (\<open>check_args\<close>);
  \<^item> \<open>TypeMismatch\<close>: "{where}: arg {i} type mismatch: expected {e}, got {a}" (\<open>check_args\<close>);
  \<^item> \<open>AtStep\<close>: "Step {idx} ({op}): {e}" (\<open>validate_plan\<close>);
  \<^item> \<open>UnsupportedStep\<close>: "Unsupported step type" (\<open>validate_step\<close>);
  \<^item> \<open>NoMatchingConstructor\<close>: "No matching constructor for '{type}'" (\<open>validate_create\<close>);
  \<^item> \<open>UnknownVariable\<close>: "Unknown variable '{target}'" (\<open>validate_call\<close>);
  \<^item> \<open>MethodNotFound\<close>: "Method '{method}' not found in '{obj_type}'" (\<open>validate_call\<close>);
  \<^item> \<open>UnknownTargetObject\<close>: "Unknown target object '{target}'" (\<open>validate_get\<close>);
  \<^item> \<open>InvalidTargetType\<close>: "Invalid target type" (\<open>validate_get\<close>);
  \<^item> \<open>FieldNotFound\<close>: "Field '{field}' not found in '{fqn}'" (\<open>validate_get\<close>);
  \<^item> \<open>UnknownReference\<close>: "Unknown value reference '{side}'" (\<open>validate_assert\<close>);
  \<^item> \<open>InvalidStepReference\<close>: "step index must be >= 0" (\<open>validate_expect_fail\<close>);
  \<^item> \<open>UnknownType\<close>: "Unknown type '{fqn}'" (\<open>get_constructors\<close>).
\<close>

datatype dsl_error =
    UnknownOperation json
  | MalformedPlan
  | UnknownArgument string
  | ArityMismatch string nat nat
  | TypeMismatch string nat string "string option"
  | AtStep nat string dsl_error
  | UnsupportedStep
  | NoMatchingConstructor string
  | UnknownVariable string
  | MethodNotFound string string
  | UnknownTargetObject string
  | InvalidTargetType
  | FieldNotFound string string
  | UnknownReference string
  | InvalidStepReference
  | UnknownType string

text \<open>
  The exceptions a run can end with: the module's own class, and the built-in ones that
  Python raises for a missing dict key, a missing attribute, or an unhashable or
  ill-shaped argument.
\<close>

datatype exn =
    DSLValidationError dsl_error
  | KeyError string
  | AttributeError string string
  | TypeError string

definition digit_char :: "char \<Rightarrow> bool" where
  "digit_char c = (c \<in> set ''0123456789'')"

text \<open>\<open>str.isdigit\<close>: every character is a digit and there is at least one.\<close>

definition isdigit :: "string \<Rightarrow> bool" where
  "isdigit s = (s \<noteq> [] \<and> list_all digit_char s)"

text \<open>\<open>s.replace(".", "", 1)\<close>: the first dot, if any, is removed.\<close>

definition drop_first_dot :: "string \<Rightarrow> string" where
  "drop_first_dot s = remove1 (CHR ''.'') s"

fun startswith :: "string \<Rightarrow> string \<Rightarrow> bool" where
  "startswith s [] = True"
| "startswith [] (p # ps) = False"
| "startswith (c # cs) (p # ps) = (c = p \<and> startswith cs ps)"

section \<open>The symbol index (\<open>JsonASTProvider\<close>)\<close>

text \<open>
  A record of the AST index is a dict. Classes, methods and functions share the keys
  \<open>kind\<close>, \<open>name\<close> and \<open>fqn\<close>; the symbol table holds all three under one type, so they are
  one datatype here. A key that a record does not carry takes the default that the
  readers' \<open>.get(key, [])\<close> supplies (\<open>methods\<close>, \<open>fields\<close>) or JSON null
  (\<open>return_type\<close>, which the indexer \<open>ai-cpp-tester.py\<close> writes as null for
  constructors). That indexer writes \<open>methods\<close> for every class, with the constructors
  among them, and \<open>params\<close> with a \<open>type\<close> for every method.
\<close>

datatype param = Param (p_name: string) (p_type: string)

datatype field = ClassField (f_name: string) (f_type: string)

datatype symbol =
  Symbol (kind: string) (name: string) (fqn: string) (params: "param list")
    (return_type: "string option") (methods: "symbol list") (fields: "field list")

text \<open>One file of the index: its \<open>classes\<close> and its \<open>functions\<close> (\<open>funcs\<close> here).\<close>

datatype file_rec = FileRec (classes: "symbol list") (funcs: "symbol list")

text \<open>The index itself: a dict from file path to file record, in insertion order.\<close>

type_synonym ast_index = "(string \<times> file_rec) list"

text \<open>
  \<open>_build_symbol_index\<close>: three nested loops that store every class, every method of
  the class and every function under its \<open>fqn\<close>; a later store overwrites an earlier one.
  The loop over the methods of a class and the loop over the functions of a file have
  the same body (\<open>index_symbols\<close>).
\<close>

fun index_symbols :: "symbol list \<Rightarrow> (string \<rightharpoonup> symbol) \<Rightarrow> (string \<rightharpoonup> symbol)" where
  "index_symbols [] symbols = symbols"
| "index_symbols (m # ms) symbols = index_symbols ms (symbols(fqn m \<mapsto> m))"

fun index_classes :: "symbol list \<Rightarrow> (string \<rightharpoonup> symbol) \<Rightarrow> (string \<rightharpoonup> symbol)" where
  "index_classes [] symbols = symbols"
| "index_classes (cls # cs) symbols =
     index_classes cs (index_symbols (methods cls) (symbols(fqn cls \<mapsto> cls)))"

fun index_files :: "file_rec list \<Rightarrow> (string \<rightharpoonup> symbol) \<Rightarrow> (string \<rightharpoonup> symbol)" where
  "index_files [] symbols = symbols"
| "index_files (file # fs) symbols =
     index_files fs (index_symbols (funcs file) (index_classes (classes file) symbols))"

definition build_symbol_index :: "ast_index \<Rightarrow> (string \<rightharpoonup> symbol)" where
  "build_symbol_index index = index_files (map snd index) Map.empty"

record JsonASTProvider =
  index :: ast_index
  symbols :: "string \<rightharpoonup> symbol"

definition new_JsonASTProvider :: "ast_index \<Rightarrow> JsonASTProvider" where
  "new_JsonASTProvider ast_index =
     \<lparr> index = ast_index, symbols = build_symbol_index ast_index \<rparr>"

definition class_kind :: "string \<Rightarrow> bool" where
  "class_kind k = (k = ''class_decl'' \<or> k = ''struct_decl'')"

definition get_class :: "JsonASTProvider \<Rightarrow> string \<Rightarrow> symbol option" where
  "get_class p fqn' =
     (case symbols p fqn' of
        None \<Rightarrow> None
      | Some sy \<Rightarrow> if class_kind (kind sy) then Some sy else None)"

definition get_constructors :: "JsonASTProvider \<Rightarrow> string \<Rightarrow> exn + symbol list" where
  "get_constructors p fqn' =
     (case get_class p fqn' of
        None \<Rightarrow> Inl (DSLValidationError (UnknownType fqn'))
      | Some cls \<Rightarrow> Inr (filter (\<lambda>method. kind method = ''constructor'') (methods cls)))"

definition find_method :: "JsonASTProvider \<Rightarrow> string \<Rightarrow> string \<Rightarrow> symbol option" where
  "find_method p class_fqn method_fqn =
     (case get_class p class_fqn of
        None \<Rightarrow> None
      | Some cls \<Rightarrow> find (\<lambda>m. fqn m = method_fqn) (methods cls))"

section \<open>Steps and the type environment\<close>

text \<open>
  The five step classes, with the field types their dataclasses annotate; \<open>args\<close> is the
  \<open>list[str]\<close> that \<open>check_args\<close> takes. The operands of an assertion are arbitrary JSON
  values. A \<open>result\<close> that is absent is \<open>None\<close>.
\<close>

datatype AssertExpr = AssertExpr string json json

datatype step =
    CreateStep string string "string list"
  | CallStep string string "string list" "string option"
  | GetStep string string string
  | AssertStep AssertExpr
  | ExpectFailStep int

text \<open>The \<open>op\<close> attribute that each constructor sets.\<close>

fun step_op :: "step \<Rightarrow> string" where
  "step_op (CreateStep i t a) = ''create''"
| "step_op (CallStep t m a r) = ''call''"
| "step_op (GetStep t f r) = ''get''"
| "step_op (AssertStep e) = ''assert''"
| "step_op (ExpectFailStep n) = ''expect_fail''"

datatype TestPlan = TestPlan (test: string) (steps: "step list")

text \<open>
  \<open>DSLContext\<close> has exactly two attributes: the provider and \<open>variables\<close>, the map from
  a variable to its type. A type is a Python string, or \<open>None\<close> when a result was bound
  to the \<open>return_type\<close> of a constructor: \<open>string option\<close>. The map is mutated in place;
  every validation function below takes the context and returns it, with the exception
  raised if any.
\<close>

record DSLContext =
  ast :: JsonASTProvider
  variables :: "string \<rightharpoonup> string option"

definition new_DSLContext :: "JsonASTProvider \<Rightarrow> DSLContext" where
  "new_DSLContext a = \<lparr> ast = a, variables = Map.empty \<rparr>"

text \<open>
  \<open>infer_arg_type\<close>. The argument is a \<open>str\<close>, so the test \<open>isinstance(arg, str)\<close> of
  the last branch holds; the raise after it is kept as the branch it is.
\<close>

definition infer_arg_type :: "string \<Rightarrow> DSLContext \<Rightarrow> exn + string option" where
  "infer_arg_type arg ctx =
     (case variables ctx arg of
        Some t \<Rightarrow> Inr t
      | None \<Rightarrow>
          if isdigit arg then Inr (Some ''int'')
          else if isdigit (drop_first_dot arg) then Inr (Some ''double'')
          else if arg = ''true'' \<or> arg = ''false'' then Inr (Some ''bool'')
          else if True then Inr (Some ''std::string'')
          else Inl (DSLValidationError (UnknownArgument arg)))"

definition is_type_compatible :: "string option \<Rightarrow> string \<Rightarrow> bool" where
  "is_type_compatible actual expected = (actual = Some expected)"

text \<open>
  \<open>check_args\<close> reads the context and never assigns to it; it returns the exception it
  raises, or \<open>None\<close> when it returns normally. The loop runs over
  \<open>enumerate(zip(expected_params, actual_args))\<close>.
\<close>

fun check_args_loop :: "nat \<Rightarrow> (param \<times> string) list \<Rightarrow> DSLContext \<Rightarrow> string \<Rightarrow> exn option" where
  "check_args_loop i [] ctx wh = None"
| "check_args_loop i ((param, arg) # rest) ctx wh =
     (case infer_arg_type arg ctx of
        Inl e \<Rightarrow> Some e
      | Inr actual \<Rightarrow>
          if \<not> is_type_compatible actual (p_type param)
          then Some (DSLValidationError (TypeMismatch wh i (p_type param) actual))
          else check_args_loop (Suc i) rest ctx wh)"

definition check_args :: "param list \<Rightarrow> string list \<Rightarrow> DSLContext \<Rightarrow> string \<Rightarrow> exn option" where
  "check_args expected_params actual_args ctx wh =
     (if length expected_params \<noteq> length actual_args
      then Some (DSLValidationError
             (ArityMismatch wh (length expected_params) (length actual_args)))
      else check_args_loop 0 (zip expected_params actual_args) ctx wh)"

text \<open>
  \<open>validate_create\<close>: the loop over the constructors. A \<open>DSLValidationError\<close> of
  \<open>check_args\<close> is swallowed and the next constructor is tried; any other exception
  leaves the loop.
\<close>

fun validate_create_loop ::
  "symbol list \<Rightarrow> string \<Rightarrow> string \<Rightarrow> string list \<Rightarrow> DSLContext \<Rightarrow> exn option \<times> DSLContext" where
  "validate_create_loop [] sid ty args ctx =
     (Some (DSLValidationError (NoMatchingConstructor ty)), ctx)"
| "validate_create_loop (ctor # ctors) sid ty args ctx =
     (case check_args (params ctor) args ctx (''constructor '' @ ty) of
        None \<Rightarrow> (None, ctx\<lparr>variables := (variables ctx)(sid \<mapsto> Some ty)\<rparr>)
      | Some (DSLValidationError e) \<Rightarrow> validate_create_loop ctors sid ty args ctx
      | Some other \<Rightarrow> (Some other, ctx))"

definition validate_create ::
  "string \<Rightarrow> string \<Rightarrow> string list \<Rightarrow> DSLContext \<Rightarrow> exn option \<times> DSLContext" where
  "validate_create sid ty args ctx =
     (case get_constructors (ast ctx) ty of
        Inl e \<Rightarrow> (Some e, ctx)
      | Inr ctors \<Rightarrow> validate_create_loop ctors sid ty args ctx)"

text \<open>
  \<open>validate_call\<close>. \<open>not obj_type\<close> holds for an unbound target, for one bound to
  \<open>None\<close> and for one bound to the empty string; \<open>if step.result\<close> fails for an absent
  and for an empty result name.
\<close>

definition bind_result :: "string option \<Rightarrow> symbol \<Rightarrow> DSLContext \<Rightarrow> DSLContext" where
  "bind_result result method ctx =
     (case result of
        None \<Rightarrow> ctx
      | Some r \<Rightarrow>
          if r = [] then ctx
          else ctx\<lparr>variables := (variables ctx)(r \<mapsto> return_type method)\<rparr>)"

definition call_method ::
  "string \<Rightarrow> string \<Rightarrow> string list \<Rightarrow> string option \<Rightarrow> DSLContext \<Rightarrow> exn option \<times> DSLContext" where
  "call_method obj_type method_fqn args result ctx =
     (case find_method (ast ctx) obj_type method_fqn of
        None \<Rightarrow> (Some (DSLValidationError (MethodNotFound method_fqn obj_type)), ctx)
      | Some method \<Rightarrow>
          (case check_args (params method) args ctx (obj_type @ ''::'' @ method_fqn) of
             Some e \<Rightarrow> (Some e, ctx)
           | None \<Rightarrow> (None, bind_result result method ctx)))"

definition validate_call ::
  "string \<Rightarrow> string \<Rightarrow> string list \<Rightarrow> string option \<Rightarrow> DSLContext \<Rightarrow> exn option \<times> DSLContext" where
  "validate_call target method_fqn args result ctx =
     (case variables ctx target of
        None \<Rightarrow> (Some (DSLValidationError (UnknownVariable target)), ctx)
      | Some None \<Rightarrow> (Some (DSLValidationError (UnknownVariable target)), ctx)
      | Some (Some obj_type) \<Rightarrow>
          if obj_type = [] then (Some (DSLValidationError (UnknownVariable target)), ctx)
          else call_method obj_type method_fqn args result ctx)"

text \<open>
  \<open>validate_get\<close>. For a target bound to \<open>None\<close>, \<open>get_class\<close> looks \<open>None\<close> up in
  the symbol table, whose keys are strings, and finds nothing. The last statement
  assigns to \<open>ctx.values\<close>, an attribute that \<open>DSLContext\<close> does not have: Python raises
  \<open>AttributeError\<close> there, before anything is stored.
\<close>

definition validate_get ::
  "string \<Rightarrow> string \<Rightarrow> string \<Rightarrow> DSLContext \<Rightarrow> exn option \<times> DSLContext" where
  "validate_get target fname result ctx =
     (case variables ctx target of
        None \<Rightarrow> (Some (DSLValidationError (UnknownTargetObject target)), ctx)
      | Some t \<Rightarrow>
          (case (case t of None \<Rightarrow> None | Some ty \<Rightarrow> get_class (ast ctx) ty) of
             None \<Rightarrow> (Some (DSLValidationError InvalidTargetType), ctx)
           | Some cls \<Rightarrow>
               if fname \<notin> set (map f_name (symbol.fields cls))
               then (Some (DSLValidationError (FieldNotFound fname (fqn cls))), ctx)
               else (Some (AttributeError ''DSLContext'' ''values''), ctx)))"

text \<open>\<open>validate_assert\<close>: the loop over \<open>(left, right)\<close>.\<close>

fun validate_assert_loop :: "json list \<Rightarrow> DSLContext \<Rightarrow> exn option" where
  "validate_assert_loop [] ctx = None"
| "validate_assert_loop (side # sides) ctx =
     (case side of
        JStr s \<Rightarrow>
          if startswith s ''$'' \<and> variables ctx (tl s) = None
          then Some (DSLValidationError (UnknownReference s))
          else validate_assert_loop sides ctx
      | _ \<Rightarrow> validate_assert_loop sides ctx)"

fun validate_assert :: "AssertExpr \<Rightarrow> DSLContext \<Rightarrow> exn option \<times> DSLContext" where
  "validate_assert (AssertExpr opr left right) ctx =
     (validate_assert_loop [left, right] ctx, ctx)"

definition validate_expect_fail :: "int \<Rightarrow> DSLContext \<Rightarrow> exn option \<times> DSLContext" where
  "validate_expect_fail n ctx =
     (if n < 0 then (Some (DSLValidationError InvalidStepReference), ctx) else (None, ctx))"

text \<open>
  \<open>validate_step\<close> dispatches on the class of the step. Every value of \<open>step\<close> is an
  instance of one of the five classes, so the final \<open>else\<close> (a bare \<open>Step\<close>) has no case.
\<close>

fun validate_step :: "step \<Rightarrow> DSLContext \<Rightarrow> exn option \<times> DSLContext" where
  "validate_step (CreateStep sid ty args) ctx = validate_create sid ty args ctx"
| "validate_step (CallStep target m args result) ctx = validate_call target m args result ctx"
| "validate_step (GetStep target f result) ctx = validate_get target f result ctx"
| "validate_step (AssertStep e) ctx = validate_assert e ctx"
| "validate_step (ExpectFailStep n) ctx = validate_expect_fail n ctx"

text \<open>
  \<open>validate_plan\<close>: the loop over \<open>enumerate(plan.steps)\<close>. A \<open>DSLValidationError\<close> of
  a step is caught and raised again with the index and the \<open>op\<close> of the step; the
  \<open>except\<close> clause names that class only, so any other exception passes through as it
  is. The function itself returns nothing; the model returns the exception (if any)
  together with the context the run ended with.
\<close>

fun validate_steps :: "nat \<Rightarrow> step list \<Rightarrow> DSLContext \<Rightarrow> exn option \<times> DSLContext" where
  "validate_steps idx [] ctx = (None, ctx)"
| "validate_steps idx (s # ss) ctx =
     (case validate_step s ctx of
        (None, ctx') \<Rightarrow> validate_steps (Suc idx) ss ctx'
      | (Some (DSLValidationError e), ctx') \<Rightarrow>
          (Some (DSLValidationError (AtStep idx (step_op s) e)), ctx')
      | (Some other, ctx') \<Rightarrow> (Some other, ctx'))"

definition validate_plan :: "TestPlan \<Rightarrow> JsonASTProvider \<Rightarrow> exn option \<times> DSLContext" where
  "validate_plan plan ast_provider =
     validate_steps 0 (steps plan) (new_DSLContext ast_provider)"

section \<open>Parsing a step (\<open>parse_step\<close>)\<close>














section \<open>Search (\<open>search.py\<close>)\<close>

text \<open>
  Python's \<open>float\<close> is modelled as \<open>real\<close>: sums, products, quotients and square roots
  are exact here, where the program rounds each of them to a double, and there is no
  underflow, overflow or NaN. What is stated below is stated of this exact arithmetic:
  it says how the search combines, filters, ranks and truncates the scores, not how
  doubles round.

  The search of the specification (\<open>hybrid_search\<close>) is the method \<open>semantic_search\<close>
  of \<open>SearchService\<close>. Its parameter \<open>filter\<close> is never read and is left out.
\<close>

text \<open>\<open>xs[:k]\<close>: a negative \<open>k\<close> counts from the end.\<close>

definition py_prefix :: "int \<Rightarrow> 'a list \<Rightarrow> 'a list" where
  "py_prefix k xs = (if 0 \<le> k then take (nat k) xs else take (length xs - nat (- k)) xs)"

text \<open>
  \<open>xs.sort(key=..., reverse=True)\<close>: descending by key, and stable (elements with equal
  keys keep their order), as \<open>sort_key\<close> on the negated key is.
\<close>

definition sort_desc :: "('a \<Rightarrow> real) \<Rightarrow> 'a list \<Rightarrow> 'a list" where
  "sort_desc key xs = sort_key (\<lambda>x. - key x) xs"

definition cosine_step :: "real \<times> real \<times> real \<Rightarrow> real \<times> real \<Rightarrow> real \<times> real \<times> real" where
  "cosine_step acc xy =
     (case acc of (dot, na, nb) \<Rightarrow> case xy of (x, y) \<Rightarrow> (dot + x * y, na + x * x, nb + y * y))"

definition cosine_similarity :: "real list \<Rightarrow> real list \<Rightarrow> real" where
  "cosine_similarity a b =
     (case foldl cosine_step (0, 0, 0) (zip a b) of
        (dot, na, nb) \<Rightarrow> if na = 0 \<or> nb = 0 then 0 else dot / sqrt (na * nb))"

datatype embedding_item =
  EmbeddingItem (item_id: string) (item_kind: string) (item_fqn: string) (item_file: string)
    (embedding: "real list")

datatype scored =
  Scored (s_id: string) (s_kind: string) (s_fqn: string) (s_file: string) (s_score: real)

text \<open>
  \<open>CodebaseContext\<close>. The embedding of the query comes from the external provider
  (\<open>embed_query\<close> awaits its answer): it is a function of the context here.
\<close>

record CodebaseContext =
  ast_index :: ast_index
  embeddings :: "embedding_item list"
  embed_query :: "string \<Rightarrow> real list"

definition raw_semantic_search :: "CodebaseContext \<Rightarrow> string \<Rightarrow> int \<Rightarrow> scored list" where
  "raw_semantic_search ctx query top_k =
     (let query_embedding = embed_query ctx query;
          scored = map (\<lambda>item. Scored (item_id item) (item_kind item) (item_fqn item)
                     (item_file item) (cosine_similarity query_embedding (embedding item)))
                     (embeddings ctx)
      in py_prefix top_k (sort_desc s_score scored))"



definition lower_char :: "char \<Rightarrow> char" where
  "lower_char c =
     (case map_of (zip ''ABCDEFGHIJKLMNOPQRSTUVWXYZ'' ''abcdefghijklmnopqrstuvwxyz'') c of
        None \<Rightarrow> c
      | Some l \<Rightarrow> l)"

definition lower :: "string \<Rightarrow> string" where
  "lower s = map lower_char s"



text \<open>\<open>t in haystack\<close> on strings: \<open>t\<close> occurs as a contiguous substring.\<close>

fun contains :: "string \<Rightarrow> string \<Rightarrow> bool" where
  "contains [] t = (t = [])"
| "contains (c # cs) t = (startswith (c # cs) t \<or> contains cs t)"

definition name_match_score :: "symbol \<Rightarrow> string list \<Rightarrow> real" where
  "name_match_score sy tokens =
     (let haystack = lower (name sy @ '' '' @ fqn sy);
          matches = length (filter (\<lambda>t. contains haystack t) tokens)
      in if matches = 0 then 0 else real matches / real (length tokens))"









datatype hit = Hit (h_fqn: string) (h_kind: string) (score: real) (sources: "string list")





definition semantic_map :: "CodebaseContext \<Rightarrow> string \<Rightarrow> int \<Rightarrow> (string \<times> real) list" where
  "semantic_map ctx query top_k =
     fold (\<lambda>hit m. AList.update (s_fqn hit) (s_score hit) m)
       (raw_semantic_search ctx query (top_k * 2)) []"



section \<open>Notions used in the statements\<close>



text \<open>
  A constructor matches the arguments when it has as many parameters as there are
  arguments and the inferred type of every argument is the declared type of its
  parameter.
\<close>

definition ctor_matches :: "DSLContext \<Rightarrow> string list \<Rightarrow> symbol \<Rightarrow> bool" where
  "ctor_matches ctx args ctor =
     (length (params ctor) = length args \<and>
      map (\<lambda>arg. infer_arg_type arg ctx) args = map (\<lambda>p. Inr (Some (p_type p))) (params ctor))"

text \<open>What the \<open>except\<close> clause of \<open>validate_plan\<close> makes of the exception of step \<open>i\<close>.\<close>

definition annotate :: "nat \<Rightarrow> step \<Rightarrow> exn \<Rightarrow> exn" where
  "annotate i s e =
     (case e of DSLValidationError d \<Rightarrow> DSLValidationError (AtStep i (step_op s) d) | _ \<Rightarrow> e)"





text \<open>
  The lexical score of an FQN: the greatest \<open>name_match_score\<close> among the symbols that
  carry it, and 0 when there is none. Its semantic score: the score that
  \<open>semantic_map\<close> holds for it, and 0 when it is not a key.
\<close>

definition lexical_score :: "string list \<Rightarrow> symbol list \<Rightarrow> string \<Rightarrow> real" where
  "lexical_score tokens syms f =
     fold (\<lambda>sy m. max m (name_match_score sy tokens)) (filter (\<lambda>sy. fqn sy = f) syms) 0"

definition score_in :: "(string \<times> real) list \<Rightarrow> string \<Rightarrow> real" where
  "score_in m f = (case map_of m f of None \<Rightarrow> 0 | Some s \<Rightarrow> s)"

definition semantic_score :: "CodebaseContext \<Rightarrow> string \<Rightarrow> int \<Rightarrow> string \<Rightarrow> real" where
  "semantic_score ctx query top_k f = score_in (semantic_map ctx query top_k) f"




section \<open>Example inputs\<close>

text \<open>
  A struct with a default constructor and one field, as the indexer would record it
  (with the \<open>fields\<close> key of the data model), and a plan that creates an object of it
  and reads the field.
\<close>

definition point_class :: symbol where
  "point_class =
     Symbol ''struct_decl'' ''Point'' ''lib::Point'' [] None
       [Symbol ''constructor'' ''Point'' ''lib::Point::Point'' [] None [] []]
       [ClassField ''x'' ''int'']"

definition point_provider :: JsonASTProvider where
  "point_provider = new_JsonASTProvider [(''point.h'', FileRec [point_class] [])]"

definition point_plan :: TestPlan where
  "point_plan =
     TestPlan ''read a field'' [CreateStep ''p'' ''lib::Point'' [], GetStep ''p'' ''x'' ''px'']"


text \<open>
  The class \<open>lib::Fruit\<close> with its one constructor, which takes a string; a plan whose
  second step passes two arguments to it.
\<close>

definition fruit_ctor :: symbol where
  "fruit_ctor =
     Symbol ''constructor'' ''Fruit'' ''lib::Fruit::Fruit'' [Param ''name'' ''std::string'']
       None [] []"

definition fruit_class :: symbol where
  "fruit_class = Symbol ''class_decl'' ''Fruit'' ''lib::Fruit'' [] None [fruit_ctor] []"

definition fruit_provider :: JsonASTProvider where
  "fruit_provider = new_JsonASTProvider [(''fruit.h'', FileRec [fruit_class] [])]"

definition fruit_plan :: TestPlan where
  "fruit_plan =
     TestPlan ''two fruits''
       [CreateStep ''f'' ''lib::Fruit'' [''apple''],
        CreateStep ''g'' ''lib::Fruit'' [''apple'', ''banana''],
        CreateStep ''h'' ''lib::Fruit'' [''cherry'']]"

definition fruit_env :: DSLContext where
  "fruit_env = \<lparr> ast = fruit_provider, variables = [''f'' \<mapsto> Some ''lib::Fruit''] \<rparr>"










section \<open>The symbol tables of the examples\<close>

lemma point_symbols:
  "symbols point_provider =
     [''lib::Point'' \<mapsto> point_class,
      ''lib::Point::Point'' \<mapsto> Symbol ''constructor'' ''Point'' ''lib::Point::Point'' [] None [] []]"
  by (simp add: point_provider_def new_JsonASTProvider_def build_symbol_index_def point_class_def)

lemma fruit_symbols:
  "symbols fruit_provider = [''lib::Fruit'' \<mapsto> fruit_class, ''lib::Fruit::Fruit'' \<mapsto> fruit_ctor]"
  by (simp add: fruit_provider_def new_JsonASTProvider_def build_symbol_index_def fruit_class_def
      fruit_ctor_def)


lemma fruit_get_class: "get_class fruit_provider ''lib::Fruit'' = Some fruit_class"
  by (simp add: get_class_def fruit_symbols class_kind_def fruit_class_def)

section \<open>Looking a class up (\<open>get_class\<close>, \<open>get_constructors\<close>)\<close>




section \<open>Inferring the type of an argument (\<open>infer_arg_type\<close>)\<close>






lemma infer_arg_type_total: "\<exists>t. infer_arg_type arg ctx = Inr t"
  by (simp add: infer_arg_type_def split: option.splits)




section \<open>Checking arguments and creating an object (\<open>check_args\<close>, \<open>validate_create\<close>)\<close>

lemma check_args_loop_dsl:
  "check_args_loop i pas ctx wh = Some e \<Longrightarrow> \<exists>d. e = DSLValidationError d"
proof (induction i pas ctx wh rule: check_args_loop.induct)
  case (1 i ctx wh)
  then show ?case by simp
next
  case (2 i param arg rest ctx wh)
  obtain t where t: "infer_arg_type arg ctx = Inr t"
    using infer_arg_type_total by blast
  with 2 show ?case
    by (auto split: if_splits)
qed

lemma check_args_dsl:
  "check_args ps args ctx wh = Some e \<Longrightarrow> \<exists>d. e = DSLValidationError d"
  by (auto simp: check_args_def split: if_splits dest: check_args_loop_dsl)

lemma check_args_loop_None:
  "length ps = length args \<Longrightarrow>
   check_args_loop i (zip ps args) ctx wh = None \<longleftrightarrow>
     map (\<lambda>arg. infer_arg_type arg ctx) args = map (\<lambda>p. Inr (Some (p_type p))) ps"
proof (induction ps args arbitrary: i rule: list_induct2)
  case Nil
  then show ?case by simp
next
  case (Cons p ps a args)
  obtain t where t: "infer_arg_type a ctx = Inr t"
    using infer_arg_type_total by blast
  show ?case
    using Cons.IH[of "Suc i"] by (auto simp: t is_type_compatible_def)
qed

text \<open>\<open>check_args\<close> returns normally exactly for the constructors that match.\<close>

lemma check_args_None:
  "check_args (params ctor) args ctx wh = None \<longleftrightarrow> ctor_matches ctx args ctor"
  by (auto simp: check_args_def ctor_matches_def check_args_loop_None)

lemma validate_create_loop_find:
  "validate_create_loop ctors sid ty args ctx =
     (case find (ctor_matches ctx args) ctors of
        Some ctor \<Rightarrow> (None, ctx\<lparr>variables := (variables ctx)(sid \<mapsto> Some ty)\<rparr>)
      | None \<Rightarrow> (Some (DSLValidationError (NoMatchingConstructor ty)), ctx))"
proof (induction ctors)
  case Nil
  then show ?case by simp
next
  case (Cons ctor ctors)
  show ?case
  proof (cases "check_args (params ctor) args ctx (''constructor '' @ ty)")
    case None
    then have "ctor_matches ctx args ctor"
      by (simp add: check_args_None)
    with None show ?thesis by simp
  next
    case (Some e)
    then obtain d where d: "e = DSLValidationError d"
      using check_args_dsl by blast
    from Some have "\<not> ctor_matches ctx args ctor"
      using check_args_None[of ctor args ctx "''constructor '' @ ty"] by simp
    with Some d Cons.IH show ?thesis by simp
  qed
qed




section \<open>The environment across one step (\<open>validate_step\<close>)\<close>

lemma validate_create_loop_env:
  "validate_create_loop ctors sid ty args ctx = (r, ctx') \<Longrightarrow>
     (r = None \<and> ctx' = ctx\<lparr>variables := (variables ctx)(sid \<mapsto> Some ty)\<rparr>)
     \<or> (r \<noteq> None \<and> ctx' = ctx)"
  by (auto simp: validate_create_loop_find split: option.splits)

lemma validate_create_env:
  "validate_create sid ty args ctx = (r, ctx') \<Longrightarrow>
     (r = None \<and> ctx' = ctx\<lparr>variables := (variables ctx)(sid \<mapsto> Some ty)\<rparr>)
     \<or> (r \<noteq> None \<and> ctx' = ctx)"
  by (auto simp: validate_create_def split: sum.splits dest: validate_create_loop_env)

lemma validate_call_env:
  "validate_call target m args result ctx = (r, ctx') \<Longrightarrow>
     (r = None \<and> (ctx' = ctx \<or> (\<exists>k v. ctx' = ctx\<lparr>variables := (variables ctx)(k \<mapsto> v)\<rparr>)))
     \<or> (r \<noteq> None \<and> ctx' = ctx)"
  by (auto simp: validate_call_def call_method_def bind_result_def split: if_splits option.splits)

lemma validate_get_env:
  "validate_get target f result ctx = (r, ctx') \<Longrightarrow> r \<noteq> None \<and> ctx' = ctx"
  by (auto simp: validate_get_def split: if_splits option.splits)

lemma validate_assert_env:
  "validate_assert e ctx = (r, ctx') \<Longrightarrow> ctx' = ctx"
  by (cases e) auto

lemma validate_expect_fail_env:
  "validate_expect_fail n ctx = (r, ctx') \<Longrightarrow> ctx' = ctx"
  by (auto simp: validate_expect_fail_def split: if_splits)

text \<open>A step that raises has assigned nothing.\<close>

lemma validate_step_failed_env:
  "validate_step s ctx = (Some e, ctx') \<Longrightarrow> ctx' = ctx"
  by (cases s)
    (auto dest: validate_create_env validate_call_env validate_get_env validate_assert_env
      validate_expect_fail_env)

text \<open>A step only ever adds to the variables, and leaves the provider alone.\<close>

lemma validate_step_dom:
  "validate_step s ctx = (r, ctx') \<Longrightarrow>
     dom (variables ctx) \<subseteq> dom (variables ctx') \<and> ast ctx' = ast ctx"
  by (cases s)
    (auto dest!: validate_create_env validate_call_env validate_get_env validate_assert_env
      validate_expect_fail_env)

section \<open>Reading a field (\<open>validate_get\<close>)\<close>

text \<open>
  Whenever the target is bound to a class that declares the field, \<open>validate_get\<close>
  reaches its last statement, which raises \<open>AttributeError\<close>; the environment is left
  as it was.
\<close>

lemma validate_get_success_path:
  assumes "variables ctx target = Some (Some ty)"
    and "get_class (ast ctx) ty = Some cls"
    and "fname \<in> set (map f_name (symbol.fields cls))"
  shows "validate_get target fname result ctx =
           (Some (AttributeError ''DSLContext'' ''values''), ctx)"
  using assms by (simp add: validate_get_def)

text \<open>
  Claim C1 says that a Get step whose target is bound to a class type declaring the
  field validates and binds the result identifier to the field's declared type. On the
  plan that creates \<open>p\<close> of type \<open>lib::Point\<close> and then reads its field \<open>x\<close> into \<open>px\<close>,
  the run ends with \<open>AttributeError\<close> at the Get step: \<open>px\<close> is not bound, and the one
  binding of the final environment is that of \<open>p\<close>.
\<close>

theorem get_step_raises_attribute_error:
  "fst (validate_plan point_plan point_provider) = Some (AttributeError ''DSLContext'' ''values'')
   \<and> variables (snd (validate_plan point_plan point_provider)) ''px'' = None
   \<and> variables (snd (validate_plan point_plan point_provider)) ''p'' = Some (Some ''lib::Point'')"
  by (simp add: validate_plan_def point_plan_def new_DSLContext_def validate_create_def
      get_constructors_def get_class_def point_symbols class_kind_def
      point_class_def check_args_def validate_get_def)

section \<open>Validating a plan (\<open>validate_plan\<close>)\<close>

lemma validate_steps_Cons_fail:
  "validate_step s ctx = (Some e, ctx') \<Longrightarrow>
   validate_steps k (s # ss) ctx = (Some (annotate k s e), ctx')"
  by (cases e) (simp_all add: annotate_def)

text \<open>
  A run that fails: some step \<open>i\<close> is the first to raise. The steps before it have
  returned normally, one after the other; the exception of the run is that of step \<open>i\<close>
  as the \<open>except\<close> clause leaves it; and whatever follows step \<open>i\<close> in the plan has no
  part in the result.
\<close>

lemma validate_steps_failure:
  "validate_steps k ss ctx = (Some err, ctx') \<Longrightarrow>
   \<exists>i<length ss. \<exists>c e0.
      validate_steps k (take i ss) ctx = (None, c)
    \<and> validate_step (ss ! i) c = (Some e0, ctx')
    \<and> err = annotate (k + i) (ss ! i) e0
    \<and> (\<forall>rest. validate_steps k (take (Suc i) ss @ rest) ctx = (Some err, ctx'))"
proof (induction ss arbitrary: k ctx)
  case Nil
  then show ?case by simp
next
  case (Cons s ss)
  obtain r c1 where step: "validate_step s ctx = (r, c1)"
    by (cases "validate_step s ctx")
  show ?case
  proof (cases r)
    case None
    with step Cons.prems have "validate_steps (Suc k) ss c1 = (Some err, ctx')"
      by simp
    from Cons.IH[OF this] obtain i c e0 where i: "i < length ss"
      and pre: "validate_steps (Suc k) (take i ss) c1 = (None, c)"
      and st: "validate_step (ss ! i) c = (Some e0, ctx')"
      and err: "err = annotate (Suc k + i) (ss ! i) e0"
      and rest: "\<forall>rest. validate_steps (Suc k) (take (Suc i) ss @ rest) c1 = (Some err, ctx')"
      by blast
    have "Suc i < length (s # ss)" using i by simp
    moreover have "validate_steps k (take (Suc i) (s # ss)) ctx = (None, c)"
      using step None pre by simp
    moreover have "validate_step ((s # ss) ! Suc i) c = (Some e0, ctx')"
      using st by simp
    moreover have "err = annotate (k + Suc i) ((s # ss) ! Suc i) e0"
      using err by simp
    moreover have "\<forall>rest. validate_steps k (take (Suc (Suc i)) (s # ss) @ rest) ctx = (Some err, ctx')"
      using step None rest by simp
    ultimately show ?thesis by blast
  next
    case (Some e)
    with step have st: "validate_step s ctx = (Some e, c1)" by simp
    from validate_steps_Cons_fail[OF st] Cons.prems
    have eq: "err = annotate k s e" "ctx' = c1" by simp_all
    have "0 < length (s # ss)" by simp
    moreover have "validate_steps k (take 0 (s # ss)) ctx = (None, ctx)" by simp
    moreover have "validate_step ((s # ss) ! 0) ctx = (Some e, ctx')"
      using st eq by simp
    moreover have "err = annotate (k + 0) ((s # ss) ! 0) e"
      using eq by simp
    moreover have "\<forall>rest. validate_steps k (take (Suc 0) (s # ss) @ rest) ctx = (Some err, ctx')"
      using validate_steps_Cons_fail[OF st] eq by simp
    ultimately show ?thesis by blast
  qed
qed

lemma fruit_plan_run:
  "validate_plan fruit_plan fruit_provider =
     (Some (DSLValidationError (AtStep 1 ''create'' (NoMatchingConstructor ''lib::Fruit''))),
      fruit_env)"
  by (simp add: validate_plan_def fruit_plan_def new_DSLContext_def validate_create_def
      get_constructors_def fruit_get_class fruit_class_def fruit_ctor_def check_args_def
      infer_arg_type_def isdigit_def drop_first_dot_def digit_char_def is_type_compatible_def
      fruit_env_def)


lemma fruit_plan_second_step:
  "steps fruit_plan ! 1 = CreateStep ''g'' ''lib::Fruit'' [''apple'', ''banana'']"
  by (simp add: fruit_plan_def)





text \<open>
  Claim C10: a step whose validation raises leaves the environment as it found it,
  whatever the kind of the step; so when a run fails, the environment it ends with is
  the one that the steps before the failing step have built.
\<close>

theorem failed_step_keeps_environment:
  "(validate_step s ctx = (Some e, ctx1) \<longrightarrow> ctx1 = ctx)
   \<and> (validate_plan plan p = (Some err, ctx') \<longrightarrow>
        (\<exists>i<length (steps plan). \<exists>e0.
            validate_steps 0 (take i (steps plan)) (new_DSLContext p) = (None, ctx')
          \<and> validate_step (steps plan ! i) ctx' = (Some e0, ctx')))"
proof (intro conjI impI)
  assume "validate_step s ctx = (Some e, ctx1)"
  then show "ctx1 = ctx" by (rule validate_step_failed_env)
next
  assume "validate_plan plan p = (Some err, ctx')"
  then have "validate_steps 0 (steps plan) (new_DSLContext p) = (Some err, ctx')"
    by (simp add: validate_plan_def)
  from validate_steps_failure[OF this] obtain i c e0 where i: "i < length (steps plan)"
    and pre: "validate_steps 0 (take i (steps plan)) (new_DSLContext p) = (None, c)"
    and st: "validate_step (steps plan ! i) c = (Some e0, ctx')"
    by blast
  from st have "ctx' = c" by (rule validate_step_failed_env)
  with i pre st show "\<exists>i<length (steps plan). \<exists>e0.
            validate_steps 0 (take i (steps plan)) (new_DSLContext p) = (None, ctx')
          \<and> validate_step (steps plan ! i) ctx' = (Some e0, ctx')"
    by blast
qed

lemma fruit_second_step:
  "validate_step (CreateStep ''g'' ''lib::Fruit'' [''apple'', ''banana'']) fruit_env
     = (Some (DSLValidationError (NoMatchingConstructor ''lib::Fruit'')), fruit_env)"
  by (simp add: validate_create_def get_constructors_def fruit_env_def fruit_get_class
      fruit_class_def fruit_ctor_def check_args_def)

theorem failed_step_keeps_environment_witness:
  "validate_step (CreateStep ''g'' ''lib::Fruit'' [''apple'', ''banana'']) fruit_env
     = (Some (DSLValidationError (NoMatchingConstructor ''lib::Fruit'')), fruit_env)
   \<and> validate_plan fruit_plan fruit_provider =
     (Some (DSLValidationError (AtStep 1 ''create'' (NoMatchingConstructor ''lib::Fruit''))),
      fruit_env)
   \<and> (\<exists>i<length (steps fruit_plan). \<exists>e0.
          validate_steps 0 (take i (steps fruit_plan)) (new_DSLContext fruit_provider)
            = (None, fruit_env)
        \<and> validate_step (steps fruit_plan ! i) fruit_env = (Some e0, fruit_env))"
  using fruit_second_step fruit_plan_run
    failed_step_keeps_environment [of "CreateStep ''g'' ''lib::Fruit'' [''apple'', ''banana'']"
      fruit_env "DSLValidationError (NoMatchingConstructor ''lib::Fruit'')" fruit_env
      fruit_plan fruit_provider
      "DSLValidationError (AtStep 1 ''create'' (NoMatchingConstructor ''lib::Fruit''))" fruit_env]
  by simp

lemma validate_steps_dom:
  "dom (variables ctx) \<subseteq> dom (variables (snd (validate_steps k ss ctx)))"
proof (induction ss arbitrary: k ctx)
  case Nil
  then show ?case by simp
next
  case (Cons s ss)
  obtain r c1 where step: "validate_step s ctx = (r, c1)"
    by (cases "validate_step s ctx")
  then have sub: "dom (variables ctx) \<subseteq> dom (variables c1)"
    using validate_step_dom by blast
  show ?case
  proof (cases r)
    case None
    with step have "validate_steps k (s # ss) ctx = validate_steps (Suc k) ss c1" by simp
    with sub Cons.IH[of c1 "Suc k"] show ?thesis by auto
  next
    case (Some e)
    with step have "snd (validate_steps k (s # ss) ctx) = c1"
      using validate_steps_Cons_fail[of s ctx e c1 k ss] by simp
    with sub show ?thesis by simp
  qed
qed

lemma validate_steps_append:
  "validate_steps k (xs @ ys) ctx =
     (case validate_steps k xs ctx of
        (None, c) \<Rightarrow> validate_steps (k + length xs) ys c
      | (Some e, c) \<Rightarrow> (Some e, c))"
proof (induction xs arbitrary: k ctx)
  case Nil
  then show ?case by simp
next
  case (Cons s xs)
  obtain r c1 where step: "validate_step s ctx = (r, c1)"
    by (cases "validate_step s ctx")
  show ?case
  proof (cases r)
    case None
    with step Cons.IH[of "Suc k" c1] show ?thesis
      by (simp split: prod.splits option.splits)
  next
    case (Some e)
    with step show ?thesis
      using validate_steps_Cons_fail[of s ctx e c1 k] by simp
  qed
qed

text \<open>The environment after the first \<open>i\<close> steps is contained in the one after \<open>j \<ge> i\<close>.\<close>

lemma validate_steps_prefix_dom:
  assumes "i \<le> j"
  shows "dom (variables (snd (validate_steps k (take i ss) ctx)))
           \<subseteq> dom (variables (snd (validate_steps k (take j ss) ctx)))"
proof -
  have "take j ss = take i ss @ take (j - i) (drop i ss)"
    using assms by (metis le_add_diff_inverse take_add)
  then have eq: "validate_steps k (take j ss) ctx =
     (case validate_steps k (take i ss) ctx of
        (None, c) \<Rightarrow> validate_steps (k + length (take i ss)) (take (j - i) (drop i ss)) c
      | (Some e, c) \<Rightarrow> (Some e, c))"
    by (simp only: validate_steps_append)
  obtain r c where pre: "validate_steps k (take i ss) ctx = (r, c)"
    by (cases "validate_steps k (take i ss) ctx")
  show ?thesis
  proof (cases r)
    case None
    with pre eq show ?thesis
      using validate_steps_dom[of c "k + length (take i ss)" "take (j - i) (drop i ss)"] by simp
  next
    case (Some e)
    with pre eq show ?thesis by simp
  qed
qed

text \<open>
  Claim C9: a validation run starts from a context with no variable bound (so the
  environment of a run of no step is empty); validating a step never removes a
  variable, whether the step returns or raises; and so, along a run, the set of bound
  variables after \<open>i\<close> steps is contained in the set after \<open>j\<close> steps for every
  \<open>i \<le> j\<close>.
\<close>

theorem environment_grows:
  "variables (new_DSLContext p) = Map.empty
   \<and> variables (snd (validate_plan (TestPlan t []) p)) = Map.empty
   \<and> dom (variables ctx) \<subseteq> dom (variables (snd (validate_step s ctx)))
   \<and> (i \<le> j \<longrightarrow>
        dom (variables (snd (validate_plan (TestPlan t (take i ss)) p)))
          \<subseteq> dom (variables (snd (validate_plan (TestPlan t (take j ss)) p))))"
proof (intro conjI impI)
  show "variables (new_DSLContext p) = Map.empty"
    by (simp add: new_DSLContext_def)
  show "variables (snd (validate_plan (TestPlan t []) p)) = Map.empty"
    by (simp add: validate_plan_def new_DSLContext_def)
  show "dom (variables ctx) \<subseteq> dom (variables (snd (validate_step s ctx)))"
    using validate_step_dom[of s ctx "fst (validate_step s ctx)" "snd (validate_step s ctx)"]
    by simp
  assume "i \<le> j"
  then show "dom (variables (snd (validate_plan (TestPlan t (take i ss)) p)))
          \<subseteq> dom (variables (snd (validate_plan (TestPlan t (take j ss)) p)))"
    by (simp add: validate_plan_def validate_steps_prefix_dom)
qed

lemma fruit_first_step:
  "validate_plan (TestPlan ''two fruits'' (take 1 (steps fruit_plan))) fruit_provider
     = (None, fruit_env)"
  by (simp add: validate_plan_def fruit_plan_def new_DSLContext_def validate_create_def
      get_constructors_def fruit_get_class fruit_class_def fruit_ctor_def check_args_def
      infer_arg_type_def isdigit_def drop_first_dot_def digit_char_def is_type_compatible_def
      fruit_env_def)

theorem environment_grows_witness:
  "(0::nat) \<le> 1
   \<and> dom (variables (snd (validate_plan (TestPlan ''two fruits'' (take 0 (steps fruit_plan)))
             fruit_provider))) = {}
   \<and> dom (variables (snd (validate_plan (TestPlan ''two fruits'' (take 1 (steps fruit_plan)))
             fruit_provider))) = {''f''}
   \<and> dom (variables (snd (validate_plan (TestPlan ''two fruits'' (take 0 (steps fruit_plan)))
             fruit_provider)))
       \<subseteq> dom (variables (snd (validate_plan (TestPlan ''two fruits'' (take 1 (steps fruit_plan)))
             fruit_provider)))"
  using environment_grows [where t = "''two fruits''" and p = fruit_provider and i = 0 and j = 1
      and ss = "steps fruit_plan"]
    fruit_first_step
  by (simp add: validate_plan_def new_DSLContext_def fruit_env_def)

section \<open>Parsing a step (\<open>parse_step\<close>)\<close>








section \<open>The hybrid search (\<open>semantic_search\<close>)\<close>

subsection \<open>The name loops\<close>













subsection \<open>The merge loop\<close>








subsection \<open>The two scores of an FQN\<close>

text \<open>The lexical score is the greatest name-match score of a symbol with that FQN, or 0.\<close>

lemma lexical_score_Max:
  "lexical_score tokens syms f =
     Max (insert 0 ((\<lambda>sy. name_match_score sy tokens) ` {sy \<in> set syms. fqn sy = f}))"
proof -
  have "(\<lambda>sy m. max m (name_match_score sy tokens)) = max \<circ> (\<lambda>sy. name_match_score sy tokens)"
    by (auto simp: fun_eq_iff max.commute)
  then have "lexical_score tokens syms f
      = fold max (map (\<lambda>sy. name_match_score sy tokens) (filter (\<lambda>sy. fqn sy = f) syms)) 0"
    by (simp add: lexical_score_def fold_map)
  also have "\<dots> = Max (set (0 # map (\<lambda>sy. name_match_score sy tokens)
                                  (filter (\<lambda>sy. fqn sy = f) syms)))"
    by (simp only: Max.set_eq_fold)
  also have "set (0 # map (\<lambda>sy. name_match_score sy tokens) (filter (\<lambda>sy. fqn sy = f) syms))
      = insert 0 ((\<lambda>sy. name_match_score sy tokens) ` {sy \<in> set syms. fqn sy = f})"
    by auto
  finally show ?thesis .
qed

lemma find_snoc:
  "find P (xs @ [x]) =
     (case find P xs of None \<Rightarrow> (if P x then Some x else None) | Some y \<Rightarrow> Some y)"
  by (induction xs) auto

lemma fold_update_lookup:
  "map_of (fold (\<lambda>hit m. AList.update (s_fqn hit) (s_score hit) m) hits m) f =
     (case find (\<lambda>h. s_fqn h = f) (rev hits) of
        Some h \<Rightarrow> Some (s_score h)
      | None \<Rightarrow> map_of m f)"
proof (induction hits arbitrary: m)
  case Nil
  then show ?case by simp
next
  case (Cons h hits)
  show ?case
    by (simp add: Cons.IH find_snoc AList.update_conv' split: option.splits)
qed

text \<open>
  The semantic score is the cosine similarity of the last record with that FQN among
  the first \<open>2 * top_k\<close> records of the semantic ranking, or 0 when there is none.
\<close>

lemma semantic_score_last_hit:
  "semantic_score ctx query top_k f =
     (case find (\<lambda>h. s_fqn h = f) (rev (raw_semantic_search ctx query (top_k * 2))) of
        Some h \<Rightarrow> s_score h
      | None \<Rightarrow> 0)"
  by (simp add: semantic_score_def score_in_def semantic_map_def fold_update_lookup
      split: option.splits)

subsection \<open>Ranking and truncation\<close>






subsection \<open>The search on the example\<close>














end
